theory Spec2Isabelle
  imports Main
begin

section \<open>The codec controller of media/libstagefright/CCodec.cpp\<close>

text \<open>
  The controller is modelled by explicit state passing. A value of the record
  \<open>CCodec\<close> holds the members of the class (lifecycle state and component handle,
  formats, deadline, work-done queue), the queue of messages posted to the controller's
  handler, and the trace of every call the controller makes on its collaborators
  (client callback sink, buffer channel, component, component store, release thread).
  Each locked section of the source is one atomic update of the record; a worker that
  dereferences a null component handle or fails a \<open>CHECK\<close> returns \<open>None\<close>.
\<close>

subsection \<open>Status codes\<close>

type_synonym status_t = int
type_synonym c2_status_t = int

text \<open>Modelled from the spec: the error codes \<open>OK\<close>, \<open>BAD_VALUE\<close>,
  \<open>INVALID_OPERATION\<close>, \<open>ERROR_UNSUPPORTED\<close> and \<open>UNKNOWN_ERROR\<close> (declared in
  utils/Errors.h and MediaErrors.h, which are not among the sources), here with the
  32-bit values of those headers. A component status \<open>c2_status_t\<close> is a 32-bit code
  too, with \<open>C2_OK = 0\<close>; the allocate worker passes one to \<open>onError\<close> as it is.\<close>

definition OK :: status_t where "OK = 0"
definition BAD_VALUE :: status_t where "BAD_VALUE = - 22"
definition INVALID_OPERATION :: status_t where "INVALID_OPERATION = - 38"
definition ERROR_UNSUPPORTED :: status_t where "ERROR_UNSUPPORTED = - 1010"
definition UNKNOWN_ERROR :: status_t where "UNKNOWN_ERROR = - 2147483648"
definition C2_OK :: c2_status_t where "C2_OK = 0"

text \<open>Modelled from the spec: action codes, "at least \<open>ACTION_CODE_FATAL\<close>" (the
  enumeration is declared outside the sources).\<close>

datatype ActionCode = ACTION_CODE_FATAL | ACTION_CODE_TRANSIENT | ACTION_CODE_RECOVERABLE

subsection \<open>Messages\<close>

text \<open>Modelled from the spec: \<open>AMessage\<close> (foundation/AMessage.cpp is not among the
  sources), "opaque key\<rightarrow>value property bags" carrying "typed payloads (strings, nested
  property bags, opaque object handles)". A typed lookup succeeds only on an item of
  that type; a store replaces the item of the same name or appends a new one.\<close>

datatype Item = ItemInt32 int | ItemString string | ItemObject nat
  | ItemMessage "(string \<times> Item) list"

type_synonym AMessage = "(string \<times> Item) list"

fun setItem :: "string \<Rightarrow> Item \<Rightarrow> AMessage \<Rightarrow> AMessage" where
  "setItem k v [] = [(k, v)]"
| "setItem k v ((k', v') # m) = (if k' = k then (k, v) # m else (k', v') # setItem k v m)"

definition setString :: "string \<Rightarrow> string \<Rightarrow> AMessage \<Rightarrow> AMessage" where
  "setString k s m = setItem k (ItemString s) m"

definition setInt32 :: "string \<Rightarrow> int \<Rightarrow> AMessage \<Rightarrow> AMessage" where
  "setInt32 k i m = setItem k (ItemInt32 i) m"

definition setObject :: "string \<Rightarrow> nat \<Rightarrow> AMessage \<Rightarrow> AMessage" where
  "setObject k obj m = setItem k (ItemObject obj) m"

definition setMessage :: "string \<Rightarrow> AMessage \<Rightarrow> AMessage \<Rightarrow> AMessage" where
  "setMessage k f m = setItem k (ItemMessage f) m"

definition findString :: "AMessage \<Rightarrow> string \<Rightarrow> string option" where
  "findString m k = (case map_of m k of Some (ItemString s) \<Rightarrow> Some s | _ \<Rightarrow> None)"

definition findInt32 :: "AMessage \<Rightarrow> string \<Rightarrow> int option" where
  "findInt32 m k = (case map_of m k of Some (ItemInt32 i) \<Rightarrow> Some i | _ \<Rightarrow> None)"

definition findObject :: "AMessage \<Rightarrow> string \<Rightarrow> nat option" where
  "findObject m k = (case map_of m k of Some (ItemObject obj) \<Rightarrow> Some obj | _ \<Rightarrow> None)"

definition findMessage :: "AMessage \<Rightarrow> string \<Rightarrow> AMessage option" where
  "findMessage m k = (case map_of m k of Some (ItemMessage f) \<Rightarrow> Some f | _ \<Rightarrow> None)"

text \<open>Modelled from the spec: \<open>AString::startsWithIgnoreCase\<close> (foundation/AString.cpp is
  not among the sources). The spec's "starts with" is taken with the case folding that
  the name of the call in \<open>CCodec::configure\<close> announces: the comparison of the first
  \<open>length prefix\<close> characters ignores the case of the letters A to Z.\<close>

definition tolower_char :: "char \<Rightarrow> char" where
  "tolower_char ch =
     (let n = (of_char ch :: nat) in if 65 \<le> n \<and> n \<le> 90 then char_of (n + 32) else ch)"

definition startsWithIgnoreCase :: "string \<Rightarrow> string \<Rightarrow> bool" where
  "startsWithIgnoreCase s prefix =
     (map tolower_char (take (length prefix) s) = map tolower_char prefix)"

text \<open>Modelled from the spec: the kinds of message of the controller's handler (the
  enumeration is declared in CCodec.h, which is not among the sources), as the switch of
  \<open>onMessageReceived\<close> names them; \<open>kWhatUnrecognized\<close> stands for every value that the
  switch sends to its default branch.\<close>

datatype What = kWhatAllocate | kWhatConfigure | kWhatStart | kWhatStop | kWhatFlush
  | kWhatCreateInputSurface | kWhatSetInputSurface | kWhatWorkDone | kWhatUnrecognized

record HandlerMessage =
  what :: What
  items :: AMessage

subsection \<open>Collaborators\<close>

type_synonym C2Work = nat

text \<open>Modelled from the spec: the component contract consumed by the controller,
  \<open>start\<close>, \<open>stop\<close>, \<open>release\<close>, \<open>flush\<close> and the interface's name (C2Component.h is
  not among the sources). A handle records the name its interface reports and the
  status each operation returns, with the work items a flush hands back.\<close>

record C2Component =
  intf_name :: string
  comp_start :: c2_status_t
  comp_stop :: c2_status_t
  comp_release :: c2_status_t
  comp_flush_sm :: "c2_status_t \<times> C2Work list"

text \<open>Modelled from the spec: what the other collaborators answer, none of them among
  the sources: the component store ("a synchronous \<open>create(name) -> component | error\<close>"),
  the graphic buffer source's \<open>initCheck\<close> and the buffer channel's
  \<open>setGraphicBufferSource\<close>.\<close>

record Env =
  createComponent :: "string \<Rightarrow> c2_status_t \<times> C2Component option"
  initCheck :: status_t
  setGraphicBufferSource :: status_t

text \<open>Every call the controller makes on a collaborator: the callbacks of the client
  sink, then the calls on the store, the component and the buffer channel, and the
  spawning of a release thread.\<close>

datatype event =
    onError status_t ActionCode
  | onComponentAllocated string
  | onComponentConfigured AMessage AMessage
  | onInputSurfaceCreated "AMessage option" "AMessage option"
  | onInputSurfaceCreationFailed status_t
  | onInputSurfaceDeclined status_t
  | onStartCompleted
  | onStopCompleted
  | onReleaseCompleted
  | onFlushCompleted
  | Store_createComponent string
  | Component_setListener
  | Component_start
  | Component_stop
  | Component_release
  | Component_flush
  | Channel_setComponent C2Component
  | Channel_setSurface nat
  | Channel_setGraphicBufferSource
  | Channel_start "AMessage option" "AMessage option"
  | Channel_stop
  | Channel_flush "C2Work list"
  | Channel_onWorkDone C2Work
  | Thread_release bool

subsection \<open>The controller\<close>

text \<open>Modelled from the spec: the lifecycle states (the enumeration is declared in
  CCodec.h, which is not among the sources). The component handle lives beside the state
  under one mutex; \<open>None\<close> is the null handle.\<close>

datatype State = RELEASED | ALLOCATING | ALLOCATED | STARTING | RUNNING | FLUSHING
  | FLUSHED | RESUMING | STOPPING | RELEASING

record Formats =
  inputFormat :: "AMessage option"
  outputFormat :: "AMessage option"

type_synonym TimePoint = int

text \<open>Time points count the nanoseconds of the steady clock; \<open>TimePoint::max()\<close> is the
  largest signed 64-bit count. The model adds durations in unbounded integers.\<close>

definition TimePoint_max :: TimePoint where
  "TimePoint_max = 9223372036854775807"

definition ms :: "int \<Rightarrow> int" where
  "ms n = n * 1000000"

record CCodec =
  mState :: State
  state_comp :: "C2Component option"
  mFormats :: Formats
  mDeadline :: TimePoint
  mWorkDoneQueue :: "C2Work list"
  mListener :: bool
  looper :: "HandlerMessage list"
  trace :: "event list"

text \<open>A controller at rest: released, no component, no formats, the deadline at
  "never", nothing queued and nothing recorded.\<close>

definition idle_codec :: CCodec where
  "idle_codec = \<lparr>mState = RELEASED, state_comp = None,
     mFormats = \<lparr>inputFormat = None, outputFormat = None\<rparr>,
     mDeadline = TimePoint_max, mWorkDoneQueue = [], mListener = False,
     looper = [], trace = []\<rparr>"

definition emit :: "event \<Rightarrow> CCodec \<Rightarrow> CCodec" where
  "emit e c = c\<lparr>trace := trace c @ [e]\<rparr>"

definition post :: "HandlerMessage \<Rightarrow> CCodec \<Rightarrow> CCodec" where
  "post m c = c\<lparr>looper := looper c @ [m]\<rparr>"

definition initiateAllocateComponent :: "AMessage \<Rightarrow> CCodec \<Rightarrow> CCodec" where
  "initiateAllocateComponent msg c =
     (if mState c \<noteq> RELEASED then emit (onError INVALID_OPERATION ACTION_CODE_FATAL) c
      else
        let c1 = c\<lparr>mState := ALLOCATING\<rparr>;
            componentName = (case findString msg ''componentName'' of
                               Some n \<Rightarrow> n | None \<Rightarrow> [])
        in post \<lparr>what = kWhatAllocate,
                 items = setString ''componentName'' componentName []\<rparr> c1)"

definition allocate :: "Env \<Rightarrow> string \<Rightarrow> CCodec \<Rightarrow> CCodec option" where
  "allocate env componentName c =
     (let c1 = emit (Store_createComponent componentName) (c\<lparr>mListener := True\<rparr>)
      in case createComponent env componentName of (err, created) \<Rightarrow>
        if err \<noteq> C2_OK then
          Some (emit (onError err ACTION_CODE_FATAL) (c1\<lparr>mState := RELEASED\<rparr>))
        else (case created of
            None \<Rightarrow> None
          | Some k \<Rightarrow>
              let c2 = emit Component_setListener c1
              in if mState c2 \<noteq> ALLOCATING then
                   Some (emit (onError UNKNOWN_ERROR ACTION_CODE_FATAL)
                           (c2\<lparr>mState := RELEASED\<rparr>))
                 else
                   Some (emit (onComponentAllocated (intf_name k))
                          (emit (Channel_setComponent k)
                             (c2\<lparr>mState := ALLOCATED, state_comp := Some k\<rparr>)))))"

definition initiateConfigureComponent :: "AMessage \<Rightarrow> CCodec \<Rightarrow> CCodec" where
  "initiateConfigureComponent format c =
     (if mState c \<noteq> ALLOCATED then emit (onError UNKNOWN_ERROR ACTION_CODE_FATAL) c
      else post \<lparr>what = kWhatConfigure, items = setMessage ''format'' format []\<rparr> c)"

definition setSurface :: "nat \<Rightarrow> CCodec \<Rightarrow> CCodec" where
  "setSurface surface c = emit (Channel_setSurface surface) c"

definition raw_mime :: "bool \<Rightarrow> string" where
  "raw_mime audio = (if audio then ''audio'' else ''video'') @ ''/raw''"

text \<open>The lambda of \<open>configure\<close>: its status, the two formats it fills, and the
  controller after the surface, if any, was handed to the buffer channel.\<close>

definition configure_lambda ::
  "AMessage \<Rightarrow> CCodec \<Rightarrow> status_t \<times> AMessage \<times> AMessage \<times> CCodec" where
  "configure_lambda msg c =
     (case findString msg ''mime'' of
        None \<Rightarrow> (BAD_VALUE, [], [], c)
      | Some mime \<Rightarrow>
          let encoder = (case findInt32 msg ''encoder'' of Some e \<Rightarrow> e | None \<Rightarrow> 0);
              c1 = (case findObject msg ''native-window'' of
                      Some obj \<Rightarrow> setSurface obj c | None \<Rightarrow> c);
              audio = startsWithIgnoreCase mime ''audio/''
          in if encoder \<noteq> 0 then
               let outFmt = setString ''mime'' mime [];
                   inFmt = setString ''mime'' (raw_mime audio) []
               in if audio then
                    (OK,
                     setInt32 ''sample-rate'' 44100 (setInt32 ''channel-count'' 1 inFmt),
                     setInt32 ''sample-rate'' 44100 (setInt32 ''channel-count'' 1 outFmt),
                     c1)
                  else
                    (OK, inFmt,
                     setInt32 ''height'' 1920 (setInt32 ''width'' 1080 outFmt), c1)
             else
               let inFmt = setString ''mime'' mime [];
                   outFmt = setString ''mime'' (raw_mime audio) []
               in if audio then
                    (OK, inFmt,
                     setInt32 ''sample-rate'' 44100 (setInt32 ''channel-count'' 2 outFmt),
                     c1)
                  else (OK, inFmt, outFmt, c1))"

text \<open>In \<open>if (status_t err = [=] {...}() != OK)\<close> the variable receives the value of
  the comparison, so it is 1 whenever the lambda fails.\<close>

definition configure :: "AMessage \<Rightarrow> CCodec \<Rightarrow> CCodec" where
  "configure msg c =
     (case configure_lambda msg c of (r, inFmt, outFmt, c1) \<Rightarrow>
        let err = (if r \<noteq> OK then 1 else 0 :: status_t)
        in if err \<noteq> 0 then emit (onError err ACTION_CODE_FATAL) c1
           else emit (onComponentConfigured inFmt outFmt)
                  (c1\<lparr>mFormats := \<lparr>inputFormat = Some inFmt,
                                    outputFormat = Some outFmt\<rparr>\<rparr>))"

definition initiateCreateInputSurface :: "CCodec \<Rightarrow> CCodec" where
  "initiateCreateInputSurface c = post \<lparr>what = kWhatCreateInputSurface, items = []\<rparr> c"

definition createInputSurface :: "Env \<Rightarrow> CCodec \<Rightarrow> CCodec" where
  "createInputSurface env c =
     (if initCheck env \<noteq> OK then emit (onInputSurfaceCreationFailed (initCheck env)) c
      else
        let c1 = emit Channel_setGraphicBufferSource c
        in if setGraphicBufferSource env \<noteq> OK then
             emit (onInputSurfaceCreationFailed (setGraphicBufferSource env)) c1
           else emit (onInputSurfaceCreated (inputFormat (mFormats c1))
                        (outputFormat (mFormats c1))) c1)"

definition initiateSetInputSurface :: "nat \<Rightarrow> CCodec \<Rightarrow> CCodec" where
  "initiateSetInputSurface surface c =
     post \<lparr>what = kWhatSetInputSurface, items = setObject ''surface'' surface []\<rparr> c"

definition setInputSurface :: "nat \<Rightarrow> CCodec \<Rightarrow> CCodec" where
  "setInputSurface surface c = emit (onInputSurfaceDeclined ERROR_UNSUPPORTED) c"

definition initiateStart :: "CCodec \<Rightarrow> CCodec" where
  "initiateStart c =
     (if mState c \<noteq> ALLOCATED then emit (onError UNKNOWN_ERROR ACTION_CODE_FATAL) c
      else post \<lparr>what = kWhatStart, items = []\<rparr> (c\<lparr>mState := STARTING\<rparr>))"

definition start :: "CCodec \<Rightarrow> CCodec option" where
  "start c =
     (if mState c \<noteq> STARTING then Some (emit (onError UNKNOWN_ERROR ACTION_CODE_FATAL) c)
      else (case state_comp c of
          None \<Rightarrow> None
        | Some k \<Rightarrow>
            let c1 = emit Component_start c
            in if comp_start k \<noteq> C2_OK then
                 Some (emit (onError UNKNOWN_ERROR ACTION_CODE_FATAL) c1)
               else
                 let c2 = emit (Channel_start (inputFormat (mFormats c1))
                                  (outputFormat (mFormats c1))) c1
                 in if mState c2 \<noteq> STARTING then
                      Some (emit (onError UNKNOWN_ERROR ACTION_CODE_FATAL) c2)
                    else Some (emit onStartCompleted (c2\<lparr>mState := RUNNING\<rparr>))))"

definition initiateStop :: "CCodec \<Rightarrow> CCodec" where
  "initiateStop c =
     (if mState c = ALLOCATED \<or> mState c = RELEASED \<or> mState c = STOPPING
         \<or> mState c = RELEASING
      then emit onStopCompleted c
      else post \<lparr>what = kWhatStop, items = []\<rparr> (c\<lparr>mState := STOPPING\<rparr>))"

definition stop :: "CCodec \<Rightarrow> CCodec option" where
  "stop c =
     (if mState c = RELEASING then Some (emit onStopCompleted c)
      else if mState c \<noteq> STOPPING then
        Some (emit (onError UNKNOWN_ERROR ACTION_CODE_FATAL) c)
      else (case state_comp c of
          None \<Rightarrow> None
        | Some k \<Rightarrow>
            let c1 = emit Component_stop (emit Channel_stop c);
                c2 = (if comp_stop k \<noteq> C2_OK
                      then emit (onError UNKNOWN_ERROR ACTION_CODE_FATAL) c1 else c1);
                c3 = (if mState c2 = STOPPING then c2\<lparr>mState := ALLOCATED\<rparr> else c2)
            in Some (emit onStopCompleted c3)))"

definition initiateRelease :: "bool \<Rightarrow> CCodec \<Rightarrow> CCodec" where
  "initiateRelease sendCallback c =
     (if mState c = RELEASED \<or> mState c = RELEASING then
        (if sendCallback then emit onReleaseCompleted c else c)
      else if mState c = ALLOCATING then
        (let c1 = c\<lparr>mState := RELEASING\<rparr>
         in if sendCallback then emit onReleaseCompleted c1 else c1)
      else emit (Thread_release sendCallback) (c\<lparr>mState := RELEASING\<rparr>))"

definition release :: "bool \<Rightarrow> CCodec \<Rightarrow> CCodec option" where
  "release sendCallback c =
     (if mState c = RELEASED then
        Some (if sendCallback then emit onReleaseCompleted c else c)
      else (case state_comp c of
          None \<Rightarrow> None
        | Some k \<Rightarrow>
            let c1 = emit Component_release (emit Channel_stop c);
                c2 = c1\<lparr>mState := RELEASED, state_comp := None\<rparr>
            in Some (if sendCallback then emit onReleaseCompleted c2 else c2)))"

definition initiateShutdown :: "bool \<Rightarrow> CCodec \<Rightarrow> CCodec" where
  "initiateShutdown keepComponentAllocated c =
     (if keepComponentAllocated then initiateStop c else initiateRelease True c)"

definition signalFlush :: "CCodec \<Rightarrow> CCodec" where
  "signalFlush c =
     (if mState c \<noteq> RUNNING then emit (onError UNKNOWN_ERROR ACTION_CODE_FATAL) c
      else post \<lparr>what = kWhatFlush, items = []\<rparr> (c\<lparr>mState := FLUSHING\<rparr>))"

definition flush :: "CCodec \<Rightarrow> CCodec option" where
  "flush c =
     (if mState c \<noteq> FLUSHING then Some (emit (onError UNKNOWN_ERROR ACTION_CODE_FATAL) c)
      else (case state_comp c of
          None \<Rightarrow> None
        | Some k \<Rightarrow>
            (case comp_flush_sm k of (err, flushedWork) \<Rightarrow>
               let c1 = emit Component_flush (emit Channel_stop c);
                   c2 = (if err \<noteq> C2_OK
                         then emit (onError UNKNOWN_ERROR ACTION_CODE_FATAL) c1 else c1);
                   c3 = emit (Channel_flush flushedWork) c2
               in Some (emit onFlushCompleted (c3\<lparr>mState := FLUSHED\<rparr>)))))"

definition signalResume :: "CCodec \<Rightarrow> CCodec" where
  "signalResume c =
     (if mState c \<noteq> FLUSHED then emit (onError UNKNOWN_ERROR ACTION_CODE_FATAL) c
      else
        let c1 = emit (Channel_start None None) (c\<lparr>mState := RESUMING\<rparr>)
        in if mState c1 \<noteq> RESUMING then emit (onError UNKNOWN_ERROR ACTION_CODE_FATAL) c1
           else c1\<lparr>mState := RUNNING\<rparr>)"

text \<open>The listener's entry point: every item is pushed to the back of the queue, then
  one \<open>kWhatWorkDone\<close> is posted.\<close>

definition onWorkDone :: "C2Work list \<Rightarrow> CCodec \<Rightarrow> CCodec" where
  "onWorkDone workItems c =
     post \<lparr>what = kWhatWorkDone, items = []\<rparr>
       (c\<lparr>mWorkDoneQueue := foldl (\<lambda>queue item. queue @ [item]) (mWorkDoneQueue c) workItems\<rparr>)"

definition setDeadline :: "TimePoint \<Rightarrow> CCodec \<Rightarrow> CCodec" where
  "setDeadline newDeadline c = c\<lparr>mDeadline := newDeadline\<rparr>"

text \<open>The switch of \<open>onMessageReceived\<close>, up to the \<open>break\<close> of the selected case.\<close>

definition handle :: "Env \<Rightarrow> TimePoint \<Rightarrow> HandlerMessage \<Rightarrow> CCodec \<Rightarrow> CCodec option" where
  "handle env now msg c =
     (case what msg of
        kWhatAllocate \<Rightarrow>
          (let c1 = setDeadline (now + ms 150) c
           in case findString (items msg) ''componentName'' of
                None \<Rightarrow> None
              | Some componentName \<Rightarrow> allocate env componentName c1)
      | kWhatConfigure \<Rightarrow>
          (let c1 = setDeadline (now + ms 50) c
           in case findMessage (items msg) ''format'' of
                None \<Rightarrow> None
              | Some format \<Rightarrow> Some (configure format c1))
      | kWhatStart \<Rightarrow> start (setDeadline (now + ms 550) c)
      | kWhatStop \<Rightarrow> stop (setDeadline (now + ms 550) c)
      | kWhatFlush \<Rightarrow> flush (setDeadline (now + ms 50) c)
      | kWhatCreateInputSurface \<Rightarrow>
          Some (createInputSurface env (setDeadline (now + ms 100) c))
      | kWhatSetInputSurface \<Rightarrow>
          (let c1 = setDeadline (now + ms 100) c
           in case findObject (items msg) ''surface'' of
                None \<Rightarrow> None
              | Some surface \<Rightarrow> Some (setInputSurface surface c1))
      | kWhatWorkDone \<Rightarrow>
          (case mWorkDoneQueue c of
             [] \<Rightarrow> Some c
           | work # rest \<Rightarrow>
               let c1 = c\<lparr>mWorkDoneQueue := rest\<rparr>;
                   c2 = (if rest \<noteq> [] then post \<lparr>what = kWhatWorkDone, items = []\<rparr> c1
                         else c1)
               in Some (emit (Channel_onWorkDone work) c2))
      | kWhatUnrecognized \<Rightarrow> Some c)"

definition onMessageReceived ::
  "Env \<Rightarrow> TimePoint \<Rightarrow> HandlerMessage \<Rightarrow> CCodec \<Rightarrow> CCodec option" where
  "onMessageReceived env now msg c =
     (case handle env now msg c of
        None \<Rightarrow> None
      | Some c' \<Rightarrow> Some (setDeadline TimePoint_max c'))"

definition initiateReleaseIfStuck :: "TimePoint \<Rightarrow> CCodec \<Rightarrow> CCodec" where
  "initiateReleaseIfStuck now c =
     (if mDeadline c \<ge> now then c
      else initiateRelease True (emit (onError UNKNOWN_ERROR ACTION_CODE_FATAL) c))"

subsection \<open>The dispatcher and the listener at work\<close>

text \<open>A schedule interleaves notifications of the component listener with deliveries of
  the oldest pending message to the controller's handler, each at its own time.\<close>

datatype action = Enqueue "C2Work list" | Deliver TimePoint

definition deliver :: "Env \<Rightarrow> TimePoint \<Rightarrow> CCodec \<Rightarrow> CCodec option" where
  "deliver env now c =
     (case looper c of
        [] \<Rightarrow> Some c
      | msg # rest \<Rightarrow> onMessageReceived env now msg (c\<lparr>looper := rest\<rparr>))"

fun run :: "Env \<Rightarrow> action list \<Rightarrow> CCodec \<Rightarrow> CCodec option" where
  "run env [] c = Some c"
| "run env (Enqueue workItems # acts) c = run env acts (onWorkDone workItems c)"
| "run env (Deliver now # acts) c =
     (case deliver env now c of None \<Rightarrow> None | Some c' \<Rightarrow> run env acts c')"

fun enqueued :: "action list \<Rightarrow> C2Work list" where
  "enqueued [] = []"
| "enqueued (Enqueue workItems # acts) = workItems @ enqueued acts"
| "enqueued (Deliver now # acts) = enqueued acts"

text \<open>The work items handed to the buffer channel's \<open>onWorkDone\<close>, in the order of the
  calls.\<close>

definition delivered :: "event list \<Rightarrow> C2Work list" where
  "delivered es = concat (map (\<lambda>e. case e of Channel_onWorkDone w \<Rightarrow> [w] | _ \<Rightarrow> []) es)"

text \<open>Only work-done messages are pending, and one is pending whenever the queue holds
  an item.\<close>

definition wd_pending :: "CCodec \<Rightarrow> bool" where
  "wd_pending c \<longleftrightarrow>
     list_all (\<lambda>m. what m = kWhatWorkDone) (looper c)
     \<and> (mWorkDoneQueue c \<noteq> [] \<longrightarrow> looper c \<noteq> [])"

text \<open>The work items in flight: those already handed to the buffer channel, then those
  still queued.\<close>

definition flow :: "CCodec \<Rightarrow> C2Work list" where
  "flow c = delivered (trace c) @ mWorkDoneQueue c"

subsection \<open>Sample collaborators\<close>

text \<open>A component whose operations all succeed, one whose \<open>stop\<close> and \<open>flush_sm\<close>
  fail, and a store that knows the first by name and answers \<open>- 2\<close> (not found) for
  every other name.\<close>

definition example_component :: C2Component where
  "example_component = \<lparr>intf_name = ''c2.example.aac.dec'', comp_start = C2_OK,
     comp_stop = C2_OK, comp_release = C2_OK, comp_flush_sm = (C2_OK, [])\<rparr>"


definition example_env :: Env where
  "example_env = \<lparr>createComponent =
       (\<lambda>name. if name = ''c2.example.aac.dec'' then (C2_OK, Some example_component)
               else (- 2, None)),
     initCheck = OK, setGraphicBufferSource = OK\<rparr>"

text \<open>The literal reading of "starts with": a case-sensitive prefix test.\<close>

definition startsWith :: "string \<Rightarrow> string \<Rightarrow> bool" where
  "startsWith s prefix = (take (length prefix) s = prefix)"

section \<open>Properties\<close>

lemma idle_codec_sel [simp]:
  "mState idle_codec = RELEASED" "state_comp idle_codec = None"
  "mFormats idle_codec = \<lparr>inputFormat = None, outputFormat = None\<rparr>"
  "mDeadline idle_codec = TimePoint_max" "mWorkDoneQueue idle_codec = []"
  "mListener idle_codec = False" "looper idle_codec = []" "trace idle_codec = []"
  by (simp_all add: idle_codec_def)

subsection \<open>Commands issued in the wrong state\<close>

text \<open>Claim C2. A lifecycle command whose state precondition fails
  (\<open>initiateAllocateComponent\<close> outside \<open>RELEASED\<close>, \<open>initiateConfigureComponent\<close> or
  \<open>initiateStart\<close> outside \<open>ALLOCATED\<close>, \<open>signalFlush\<close> outside \<open>RUNNING\<close>,
  \<open>signalResume\<close> outside \<open>FLUSHED\<close>) appends exactly one \<open>onError\<close> with action code
  \<open>ACTION_CODE_FATAL\<close> and error code \<open>INVALID_OPERATION\<close> or \<open>UNKNOWN_ERROR\<close> to the
  trace and changes nothing else: no message is posted and the lifecycle state stays.\<close>

theorem precondition_violation:
  "(mState c \<noteq> RELEASED \<longrightarrow>
      initiateAllocateComponent msg c
        = c\<lparr>trace := trace c @ [onError INVALID_OPERATION ACTION_CODE_FATAL]\<rparr>)
   \<and> (mState c \<noteq> ALLOCATED \<longrightarrow>
      initiateConfigureComponent format c
        = c\<lparr>trace := trace c @ [onError UNKNOWN_ERROR ACTION_CODE_FATAL]\<rparr>)
   \<and> (mState c \<noteq> ALLOCATED \<longrightarrow>
      initiateStart c = c\<lparr>trace := trace c @ [onError UNKNOWN_ERROR ACTION_CODE_FATAL]\<rparr>)
   \<and> (mState c \<noteq> RUNNING \<longrightarrow>
      signalFlush c = c\<lparr>trace := trace c @ [onError UNKNOWN_ERROR ACTION_CODE_FATAL]\<rparr>)
   \<and> (mState c \<noteq> FLUSHED \<longrightarrow>
      signalResume c = c\<lparr>trace := trace c @ [onError UNKNOWN_ERROR ACTION_CODE_FATAL]\<rparr>)"
  by (simp add: initiateAllocateComponent_def initiateConfigureComponent_def
      initiateStart_def signalFlush_def signalResume_def emit_def)

text \<open>The five commands on a controller in state \<open>STARTING\<close>.\<close>

theorem precondition_violation_witness:
  "mState (idle_codec\<lparr>mState := STARTING\<rparr>) \<noteq> RELEASED
   \<and> mState (idle_codec\<lparr>mState := STARTING\<rparr>) \<noteq> ALLOCATED
   \<and> mState (idle_codec\<lparr>mState := STARTING\<rparr>) \<noteq> RUNNING
   \<and> mState (idle_codec\<lparr>mState := STARTING\<rparr>) \<noteq> FLUSHED
   \<and> trace (initiateAllocateComponent [] (idle_codec\<lparr>mState := STARTING\<rparr>))
        = [onError INVALID_OPERATION ACTION_CODE_FATAL]
   \<and> trace (initiateConfigureComponent [] (idle_codec\<lparr>mState := STARTING\<rparr>))
        = [onError UNKNOWN_ERROR ACTION_CODE_FATAL]
   \<and> trace (initiateStart (idle_codec\<lparr>mState := STARTING\<rparr>))
        = [onError UNKNOWN_ERROR ACTION_CODE_FATAL]
   \<and> trace (signalFlush (idle_codec\<lparr>mState := STARTING\<rparr>))
        = [onError UNKNOWN_ERROR ACTION_CODE_FATAL]
   \<and> trace (signalResume (idle_codec\<lparr>mState := STARTING\<rparr>))
        = [onError UNKNOWN_ERROR ACTION_CODE_FATAL]"
  using precondition_violation [of "idle_codec\<lparr>mState := STARTING\<rparr>" "[]" "[]"]
  by (simp add: idle_codec_def)

subsection \<open>Repeated stop and release\<close>

text \<open>Claim C6. \<open>initiateStop\<close> in one of the states \<open>ALLOCATED\<close>, \<open>RELEASED\<close>,
  \<open>STOPPING\<close>, \<open>RELEASING\<close> emits exactly one \<open>onStopCompleted\<close>, posts nothing and
  leaves the state; \<open>initiateRelease\<close> in \<open>RELEASED\<close> or \<open>RELEASING\<close> emits exactly one
  \<open>onReleaseCompleted\<close> when \<open>sendCallback\<close> is true (none otherwise), spawns no release
  thread and leaves the state; repeating either command keeps the lifecycle state.\<close>

theorem idempotent_stop_release:
  "(mState c \<in> {ALLOCATED, RELEASED, STOPPING, RELEASING} \<longrightarrow>
      initiateStop c = c\<lparr>trace := trace c @ [onStopCompleted]\<rparr>
      \<and> mState (initiateStop (initiateStop c)) = mState c)
   \<and> (mState c \<in> {RELEASED, RELEASING} \<longrightarrow>
      initiateRelease sendCallback c
        = c\<lparr>trace := trace c @ (if sendCallback then [onReleaseCompleted] else [])\<rparr>
      \<and> mState (initiateRelease sendCallback (initiateRelease sendCallback c)) = mState c)"
  by (auto simp add: initiateStop_def initiateRelease_def emit_def)

text \<open>Both commands on a released controller.\<close>

theorem idempotent_stop_release_witness:
  "mState idle_codec \<in> {ALLOCATED, RELEASED, STOPPING, RELEASING}
   \<and> mState idle_codec \<in> {RELEASED, RELEASING}
   \<and> initiateStop idle_codec = idle_codec\<lparr>trace := [onStopCompleted]\<rparr>
   \<and> initiateRelease True idle_codec = idle_codec\<lparr>trace := [onReleaseCompleted]\<rparr>"
  using idempotent_stop_release [of idle_codec True]
  by simp

subsection \<open>The watchdog's entry point\<close>

text \<open>Claim C9. \<open>initiateReleaseIfStuck\<close> changes nothing while the deadline is at or
  after the current time; once the deadline has elapsed it emits
  \<open>onError(UNKNOWN_ERROR, ACTION_CODE_FATAL)\<close> and then runs \<open>initiateRelease\<close> with the
  callback requested, which leaves the controller released or releasing.\<close>

theorem release_if_stuck:
  "(now \<le> mDeadline c \<longrightarrow> initiateReleaseIfStuck now c = c)
   \<and> (mDeadline c < now \<longrightarrow>
        initiateReleaseIfStuck now c
          = initiateRelease True (c\<lparr>trace := trace c @ [onError UNKNOWN_ERROR ACTION_CODE_FATAL]\<rparr>)
        \<and> mState (initiateReleaseIfStuck now c)
            = (if mState c = RELEASED then RELEASED else RELEASING)
        \<and> trace (initiateReleaseIfStuck now c)
            = trace c @ [onError UNKNOWN_ERROR ACTION_CODE_FATAL,
                 if mState c \<in> {RELEASED, RELEASING, ALLOCATING} then onReleaseCompleted
                 else Thread_release True])"
  by (simp add: initiateReleaseIfStuck_def initiateRelease_def emit_def)

text \<open>At time 5: a controller whose deadline is "never", and a starting controller
  whose deadline was 3.\<close>

theorem release_if_stuck_witness:
  "(5 :: int) \<le> mDeadline idle_codec
   \<and> initiateReleaseIfStuck 5 idle_codec = idle_codec
   \<and> mDeadline (idle_codec\<lparr>mState := STARTING, mDeadline := 3\<rparr>) < 5
   \<and> mState (initiateReleaseIfStuck 5 (idle_codec\<lparr>mState := STARTING, mDeadline := 3\<rparr>))
        = RELEASING
   \<and> trace (initiateReleaseIfStuck 5 (idle_codec\<lparr>mState := STARTING, mDeadline := 3\<rparr>))
        = [onError UNKNOWN_ERROR ACTION_CODE_FATAL, Thread_release True]"
  using release_if_stuck [of 5 idle_codec]
    release_if_stuck [of 5 "idle_codec\<lparr>mState := STARTING, mDeadline := 3\<rparr>"]
  by (auto simp add: TimePoint_max_def)

subsection \<open>The stop worker\<close>



subsection \<open>Release during allocation\<close>

text \<open>Claim C4. \<open>initiateRelease\<close> in state \<open>ALLOCATING\<close> sets the state to
  \<open>RELEASING\<close>, spawns no release thread and emits \<open>onReleaseCompleted\<close> at once when
  \<open>sendCallback\<close> is true; an allocate worker that has created its component and finds the
  state different from \<open>ALLOCATING\<close> sets the state to \<open>RELEASED\<close> and reports an
  error, without installing the component handle, without handing the component to the
  buffer channel and without \<open>onComponentAllocated\<close>.\<close>

theorem release_during_allocation:
  "(mState c = ALLOCATING \<longrightarrow>
      initiateRelease sendCallback c
        = c\<lparr>mState := RELEASING,
            trace := trace c @ (if sendCallback then [onReleaseCompleted] else [])\<rparr>)
   \<and> (createComponent env componentName = (C2_OK, Some k) \<and> mState c \<noteq> ALLOCATING \<longrightarrow>
      allocate env componentName c
        = Some (c\<lparr>mState := RELEASED, mListener := True,
                  trace := trace c @ [Store_createComponent componentName,
                    Component_setListener, onError UNKNOWN_ERROR ACTION_CODE_FATAL]\<rparr>))"
  by (simp add: initiateRelease_def allocate_def emit_def Let_def)

text \<open>Allocation is initiated on a released controller, release is initiated before
  the worker runs, then the worker runs against a store that creates the component.\<close>

theorem release_during_allocation_witness:
  "mState (initiateAllocateComponent [] idle_codec) = ALLOCATING
   \<and> createComponent example_env ''c2.example.aac.dec'' = (C2_OK, Some example_component)
   \<and> mState (initiateRelease True (initiateAllocateComponent [] idle_codec)) \<noteq> ALLOCATING
   \<and> (\<exists>c'. allocate example_env ''c2.example.aac.dec''
          (initiateRelease True (initiateAllocateComponent [] idle_codec)) = Some c'
        \<and> mState c' = RELEASED \<and> state_comp c' = None
        \<and> trace c' = [onReleaseCompleted, Store_createComponent ''c2.example.aac.dec'',
             Component_setListener, onError UNKNOWN_ERROR ACTION_CODE_FATAL])"
  using release_during_allocation [of "initiateAllocateComponent [] idle_codec" True
      example_env "''c2.example.aac.dec''" example_component]
    release_during_allocation [of "initiateRelease True (initiateAllocateComponent [] idle_codec)"
      True example_env "''c2.example.aac.dec''" example_component]
  by (simp add: example_env_def initiateAllocateComponent_def post_def findString_def)

subsection \<open>Deadlines\<close>

lemma emit_sel [simp]:
  "mState (emit e c) = mState c" "state_comp (emit e c) = state_comp c"
  "mFormats (emit e c) = mFormats c" "mDeadline (emit e c) = mDeadline c"
  "mWorkDoneQueue (emit e c) = mWorkDoneQueue c" "looper (emit e c) = looper c"
  "trace (emit e c) = trace c @ [e]"
  by (simp_all add: emit_def)

lemma allocate_deadline: "allocate env n c = Some c' \<Longrightarrow> mDeadline c' = mDeadline c"
  by (auto simp add: allocate_def Let_def split: prod.splits option.splits if_splits)

lemma configure_deadline: "mDeadline (configure msg c) = mDeadline c"
  by (simp add: configure_def configure_lambda_def setSurface_def Let_def
      split: option.splits)

lemma start_deadline: "start c = Some c' \<Longrightarrow> mDeadline c' = mDeadline c"
  by (auto simp add: start_def Let_def split: option.splits if_splits)

lemma stop_deadline: "stop c = Some c' \<Longrightarrow> mDeadline c' = mDeadline c"
  by (auto simp add: stop_def Let_def split: option.splits if_splits)

lemma flush_deadline: "flush c = Some c' \<Longrightarrow> mDeadline c' = mDeadline c"
  by (auto simp add: flush_def Let_def split: option.splits if_splits prod.splits)

lemma createInputSurface_deadline: "mDeadline (createInputSurface env c) = mDeadline c"
  by (simp add: createInputSurface_def Let_def)

lemma setInputSurface_deadline: "mDeadline (setInputSurface s c) = mDeadline c"
  by (simp add: setInputSurface_def)

lemma handle_deadline:
  "handle env now msg c = Some c' \<Longrightarrow>
   mDeadline c' = (case what msg of
       kWhatAllocate \<Rightarrow> now + ms 150
     | kWhatConfigure \<Rightarrow> now + ms 50
     | kWhatStart \<Rightarrow> now + ms 550
     | kWhatStop \<Rightarrow> now + ms 550
     | kWhatFlush \<Rightarrow> now + ms 50
     | kWhatCreateInputSurface \<Rightarrow> now + ms 100
     | kWhatSetInputSurface \<Rightarrow> now + ms 100
     | kWhatWorkDone \<Rightarrow> mDeadline c
     | kWhatUnrecognized \<Rightarrow> mDeadline c)"
proof (cases "what msg")
  case kWhatAllocate
  assume "handle env now msg c = Some c'"
  with kWhatAllocate show ?thesis
    by (auto simp add: handle_def setDeadline_def Let_def split: option.splits
        dest!: allocate_deadline)
next
  case kWhatConfigure
  assume "handle env now msg c = Some c'"
  with kWhatConfigure show ?thesis
    by (auto simp add: handle_def setDeadline_def Let_def configure_deadline
        split: option.splits)
next
  case kWhatStart
  assume "handle env now msg c = Some c'"
  with kWhatStart show ?thesis
    by (auto simp add: handle_def setDeadline_def dest!: start_deadline)
next
  case kWhatStop
  assume "handle env now msg c = Some c'"
  with kWhatStop show ?thesis
    by (auto simp add: handle_def setDeadline_def dest!: stop_deadline)
next
  case kWhatFlush
  assume "handle env now msg c = Some c'"
  with kWhatFlush show ?thesis
    by (auto simp add: handle_def setDeadline_def dest!: flush_deadline)
next
  case kWhatCreateInputSurface
  assume "handle env now msg c = Some c'"
  with kWhatCreateInputSurface show ?thesis
    by (auto simp add: handle_def setDeadline_def createInputSurface_deadline)
next
  case kWhatSetInputSurface
  assume "handle env now msg c = Some c'"
  with kWhatSetInputSurface show ?thesis
    by (auto simp add: handle_def setDeadline_def Let_def setInputSurface_deadline
        split: option.splits)
next
  case kWhatWorkDone
  assume "handle env now msg c = Some c'"
  with kWhatWorkDone show ?thesis
    by (auto simp add: handle_def post_def Let_def split: list.splits)
next
  case kWhatUnrecognized
  assume "handle env now msg c = Some c'"
  with kWhatUnrecognized show ?thesis
    by (auto simp add: handle_def)
qed

lemma onMessageReceived_deadline:
  "onMessageReceived env now msg c = Some c' \<Longrightarrow> mDeadline c' = TimePoint_max"
  by (auto simp add: onMessageReceived_def setDeadline_def split: option.splits)

lemma onMessageReceived_handle:
  "onMessageReceived env now msg c
     = (case handle env now msg c of
          None \<Rightarrow> None
        | Some c' \<Rightarrow> Some (c'\<lparr>mDeadline := TimePoint_max\<rparr>))"
  by (simp add: onMessageReceived_def setDeadline_def split: option.splits)

lemma handle_entry:
  "handle env now msg c = (case what msg of
       kWhatAllocate \<Rightarrow>
         (case findString (items msg) ''componentName'' of
            None \<Rightarrow> None
          | Some componentName \<Rightarrow>
              allocate env componentName (c\<lparr>mDeadline := now + ms 150\<rparr>))
     | kWhatConfigure \<Rightarrow>
         (case findMessage (items msg) ''format'' of
            None \<Rightarrow> None
          | Some format \<Rightarrow> Some (configure format (c\<lparr>mDeadline := now + ms 50\<rparr>)))
     | kWhatStart \<Rightarrow> start (c\<lparr>mDeadline := now + ms 550\<rparr>)
     | kWhatStop \<Rightarrow> stop (c\<lparr>mDeadline := now + ms 550\<rparr>)
     | kWhatFlush \<Rightarrow> flush (c\<lparr>mDeadline := now + ms 50\<rparr>)
     | kWhatCreateInputSurface \<Rightarrow>
         Some (createInputSurface env (c\<lparr>mDeadline := now + ms 100\<rparr>))
     | kWhatSetInputSurface \<Rightarrow>
         (case findObject (items msg) ''surface'' of
            None \<Rightarrow> None
          | Some surface \<Rightarrow> Some (setInputSurface surface (c\<lparr>mDeadline := now + ms 100\<rparr>)))
     | kWhatWorkDone \<Rightarrow>
         (case mWorkDoneQueue c of
            [] \<Rightarrow> Some c
          | work # rest \<Rightarrow>
              Some (c\<lparr>mWorkDoneQueue := rest,
                      looper := looper c
                        @ (if rest \<noteq> [] then [\<lparr>what = kWhatWorkDone, items = []\<rparr>] else []),
                      trace := trace c @ [Channel_onWorkDone work]\<rparr>))
     | kWhatUnrecognized \<Rightarrow> Some c)"
  by (cases "what msg")
    (simp_all add: handle_def setDeadline_def Let_def post_def emit_def
      split: option.splits list.splits)

text \<open>Claim C8. Receiving a message is running the switch and then putting the
  deadline back to "never": \<open>onMessageReceived\<close> returns exactly when the selected case
  returns, with the controller that case left and the deadline \<open>TimePoint_max\<close>. The
  selected case first sets the deadline to the time of entry plus its budget and runs its
  worker on the controller so stamped: 150 ms for allocate, 50 ms for configure and
  flush, 550 ms for start and stop, 100 ms for create-input-surface and
  set-input-surface. No worker changes the deadline, so it still holds when the worker
  returns. The work-done case sets no deadline, so the deadline stays at "never", where
  the exit of the previous message left it.\<close>

theorem deadline_policy:
  "(handle env now msg c = Some c' \<longrightarrow>
      mDeadline c' = (case what msg of
          kWhatAllocate \<Rightarrow> now + ms 150
        | kWhatConfigure \<Rightarrow> now + ms 50
        | kWhatStart \<Rightarrow> now + ms 550
        | kWhatStop \<Rightarrow> now + ms 550
        | kWhatFlush \<Rightarrow> now + ms 50
        | kWhatCreateInputSurface \<Rightarrow> now + ms 100
        | kWhatSetInputSurface \<Rightarrow> now + ms 100
        | kWhatWorkDone \<Rightarrow> mDeadline c
        | kWhatUnrecognized \<Rightarrow> mDeadline c))
   \<and> (onMessageReceived env now0 msg0 c0 = Some c \<and> what msg = kWhatWorkDone
        \<and> handle env now msg c = Some c' \<longrightarrow> mDeadline c' = TimePoint_max)
   \<and> (onMessageReceived env now msg c = Some c'' \<longrightarrow> mDeadline c'' = TimePoint_max)
   \<and> (onMessageReceived env now msg c = Some c'' \<longrightarrow>
        (\<exists>d. handle env now msg c = Some d \<and> c'' = d\<lparr>mDeadline := TimePoint_max\<rparr>
           \<and> mDeadline d = (case what msg of
                kWhatAllocate \<Rightarrow> now + ms 150
              | kWhatConfigure \<Rightarrow> now + ms 50
              | kWhatStart \<Rightarrow> now + ms 550
              | kWhatStop \<Rightarrow> now + ms 550
              | kWhatFlush \<Rightarrow> now + ms 50
              | kWhatCreateInputSurface \<Rightarrow> now + ms 100
              | kWhatSetInputSurface \<Rightarrow> now + ms 100
              | kWhatWorkDone \<Rightarrow> mDeadline c
              | kWhatUnrecognized \<Rightarrow> mDeadline c)))
   \<and> (handle env now msg c = Some c' \<longrightarrow>
        onMessageReceived env now msg c = Some (c'\<lparr>mDeadline := TimePoint_max\<rparr>))
   \<and> (handle env now msg c = None \<longrightarrow> onMessageReceived env now msg c = None)
   \<and> handle env now msg c = (case what msg of
         kWhatAllocate \<Rightarrow>
           (case findString (items msg) ''componentName'' of
              None \<Rightarrow> None
            | Some componentName \<Rightarrow>
                allocate env componentName (c\<lparr>mDeadline := now + ms 150\<rparr>))
       | kWhatConfigure \<Rightarrow>
           (case findMessage (items msg) ''format'' of
              None \<Rightarrow> None
            | Some format \<Rightarrow> Some (configure format (c\<lparr>mDeadline := now + ms 50\<rparr>)))
       | kWhatStart \<Rightarrow> start (c\<lparr>mDeadline := now + ms 550\<rparr>)
       | kWhatStop \<Rightarrow> stop (c\<lparr>mDeadline := now + ms 550\<rparr>)
       | kWhatFlush \<Rightarrow> flush (c\<lparr>mDeadline := now + ms 50\<rparr>)
       | kWhatCreateInputSurface \<Rightarrow>
           Some (createInputSurface env (c\<lparr>mDeadline := now + ms 100\<rparr>))
       | kWhatSetInputSurface \<Rightarrow>
           (case findObject (items msg) ''surface'' of
              None \<Rightarrow> None
            | Some surface \<Rightarrow>
                Some (setInputSurface surface (c\<lparr>mDeadline := now + ms 100\<rparr>)))
       | kWhatWorkDone \<Rightarrow>
           (case mWorkDoneQueue c of
              [] \<Rightarrow> Some c
            | work # rest \<Rightarrow>
                Some (c\<lparr>mWorkDoneQueue := rest,
                        looper := looper c
                          @ (if rest \<noteq> [] then [\<lparr>what = kWhatWorkDone, items = []\<rparr>] else []),
                        trace := trace c @ [Channel_onWorkDone work]\<rparr>))
       | kWhatUnrecognized \<Rightarrow> Some c)"
proof -
  have a: "handle env now msg c = Some c' \<longrightarrow>
      mDeadline c' = (case what msg of
          kWhatAllocate \<Rightarrow> now + ms 150
        | kWhatConfigure \<Rightarrow> now + ms 50
        | kWhatStart \<Rightarrow> now + ms 550
        | kWhatStop \<Rightarrow> now + ms 550
        | kWhatFlush \<Rightarrow> now + ms 50
        | kWhatCreateInputSurface \<Rightarrow> now + ms 100
        | kWhatSetInputSurface \<Rightarrow> now + ms 100
        | kWhatWorkDone \<Rightarrow> mDeadline c
        | kWhatUnrecognized \<Rightarrow> mDeadline c)"
    using handle_deadline [of env now msg c c'] by blast
  have b: "onMessageReceived env now0 msg0 c0 = Some c \<and> what msg = kWhatWorkDone
        \<and> handle env now msg c = Some c' \<longrightarrow> mDeadline c' = TimePoint_max"
    using handle_deadline [of env now msg c c'] onMessageReceived_deadline [of env now0 msg0 c0 c]
    by auto
  have d: "onMessageReceived env now msg c = Some c'' \<longrightarrow> mDeadline c'' = TimePoint_max"
    using onMessageReceived_deadline [of env now msg c c''] by blast
  have e: "onMessageReceived env now msg c = Some c'' \<longrightarrow>
        (\<exists>d. handle env now msg c = Some d \<and> c'' = d\<lparr>mDeadline := TimePoint_max\<rparr>
           \<and> mDeadline d = (case what msg of
                kWhatAllocate \<Rightarrow> now + ms 150
              | kWhatConfigure \<Rightarrow> now + ms 50
              | kWhatStart \<Rightarrow> now + ms 550
              | kWhatStop \<Rightarrow> now + ms 550
              | kWhatFlush \<Rightarrow> now + ms 50
              | kWhatCreateInputSurface \<Rightarrow> now + ms 100
              | kWhatSetInputSurface \<Rightarrow> now + ms 100
              | kWhatWorkDone \<Rightarrow> mDeadline c
              | kWhatUnrecognized \<Rightarrow> mDeadline c))"
  proof
    assume r: "onMessageReceived env now msg c = Some c''"
    then obtain d where h: "handle env now msg c = Some d"
      and eq: "c'' = d\<lparr>mDeadline := TimePoint_max\<rparr>"
      by (auto simp add: onMessageReceived_handle split: option.splits)
    from handle_deadline [OF h] h eq show "\<exists>d. handle env now msg c = Some d
        \<and> c'' = d\<lparr>mDeadline := TimePoint_max\<rparr>
        \<and> mDeadline d = (case what msg of
                kWhatAllocate \<Rightarrow> now + ms 150
              | kWhatConfigure \<Rightarrow> now + ms 50
              | kWhatStart \<Rightarrow> now + ms 550
              | kWhatStop \<Rightarrow> now + ms 550
              | kWhatFlush \<Rightarrow> now + ms 50
              | kWhatCreateInputSurface \<Rightarrow> now + ms 100
              | kWhatSetInputSurface \<Rightarrow> now + ms 100
              | kWhatWorkDone \<Rightarrow> mDeadline c
              | kWhatUnrecognized \<Rightarrow> mDeadline c)"
      by blast
  qed
  have f: "handle env now msg c = Some c' \<longrightarrow>
        onMessageReceived env now msg c = Some (c'\<lparr>mDeadline := TimePoint_max\<rparr>)"
    by (simp add: onMessageReceived_handle)
  have g: "handle env now msg c = None \<longrightarrow> onMessageReceived env now msg c = None"
    by (simp add: onMessageReceived_handle)
  note h = handle_entry [of env now msg c]
  from a b d e f g h show ?thesis
    by (intro conjI)
qed

text \<open>A configure message handled at time 1000, an allocate message that fails its
  \<open>CHECK\<close>, and a work-done message handled after an unrecognized one.\<close>

theorem deadline_policy_witness:
  "(\<exists>c' c''.
      handle example_env 1000
        \<lparr>what = kWhatConfigure, items = [(''format'', ItemMessage [])]\<rparr> idle_codec = Some c'
      \<and> mDeadline c' = 50001000
      \<and> onMessageReceived example_env 1000
        \<lparr>what = kWhatConfigure, items = [(''format'', ItemMessage [])]\<rparr> idle_codec = Some c''
      \<and> mDeadline c'' = TimePoint_max
      \<and> c'' = c'\<lparr>mDeadline := TimePoint_max\<rparr>
      \<and> c' = configure [] (idle_codec\<lparr>mDeadline := 50001000\<rparr>)
      \<and> trace c'' = [onError 1 ACTION_CODE_FATAL])
   \<and> handle example_env 1000 \<lparr>what = kWhatAllocate, items = []\<rparr> idle_codec = None
   \<and> onMessageReceived example_env 1000 \<lparr>what = kWhatAllocate, items = []\<rparr> idle_codec = None
   \<and> (\<exists>c'.
      onMessageReceived example_env 0 \<lparr>what = kWhatUnrecognized, items = []\<rparr> idle_codec
        = Some idle_codec
      \<and> what \<lparr>what = kWhatWorkDone, items = []\<rparr> = kWhatWorkDone
      \<and> handle example_env 1000 \<lparr>what = kWhatWorkDone, items = []\<rparr> idle_codec = Some c'
      \<and> mDeadline c' = TimePoint_max)"
proof -
  let ?cfg = "\<lparr>what = kWhatConfigure, items = [(''format'', ItemMessage [])]\<rparr>"
  let ?al = "\<lparr>what = kWhatAllocate, items = []\<rparr>"
  let ?u = "\<lparr>what = kWhatUnrecognized, items = []\<rparr>"
  let ?w = "\<lparr>what = kWhatWorkDone, items = []\<rparr>"
  let ?c1 = "configure [] (idle_codec\<lparr>mDeadline := 50001000\<rparr>)"
  note t1 = deadline_policy [where env = example_env and now = 1000 and msg = ?cfg
      and c = idle_codec and c' = ?c1 and now0 = 0 and ?msg0.0 = ?u and ?c0.0 = idle_codec
      and c'' = "?c1\<lparr>mDeadline := TimePoint_max\<rparr>"]
  note t2 = deadline_policy [where env = example_env and now = 1000 and msg = ?al
      and c = idle_codec]
  note t3 = deadline_policy [where env = example_env and now = 1000 and msg = ?w
      and c = idle_codec and c' = idle_codec and now0 = 0 and ?msg0.0 = ?u
      and ?c0.0 = idle_codec]
  from t1 have h1: "handle example_env 1000 ?cfg idle_codec = Some ?c1"
    by (simp add: findMessage_def ms_def)
  from t1 h1 have h2: "onMessageReceived example_env 1000 ?cfg idle_codec
      = Some (?c1\<lparr>mDeadline := TimePoint_max\<rparr>)"
    by blast
  from t1 h1 h2 have d1: "mDeadline ?c1 = 50001000
      \<and> mDeadline (?c1\<lparr>mDeadline := TimePoint_max\<rparr>) = TimePoint_max"
    by (simp add: ms_def)
  have tr: "trace (?c1\<lparr>mDeadline := TimePoint_max\<rparr>) = [onError 1 ACTION_CODE_FATAL]"
    by (simp add: configure_def configure_lambda_def findString_def BAD_VALUE_def OK_def)
  from t2 have h5: "handle example_env 1000 ?al idle_codec = None"
    by (simp add: findString_def)
  from t2 h5 have h6: "onMessageReceived example_env 1000 ?al idle_codec = None"
    by blast
  from t3 have h4: "handle example_env 1000 ?w idle_codec = Some idle_codec"
    by simp
  have h3: "onMessageReceived example_env 0 ?u idle_codec = Some idle_codec"
    by (simp add: onMessageReceived_def handle_def setDeadline_def idle_codec_def)
  from t3 h3 h4 have d2: "mDeadline idle_codec = TimePoint_max"
    by simp
  have w: "what ?w = kWhatWorkDone" by simp
  from h1 h2 d1 tr have A: "\<exists>c' c''. handle example_env 1000 ?cfg idle_codec = Some c'
      \<and> mDeadline c' = 50001000
      \<and> onMessageReceived example_env 1000 ?cfg idle_codec = Some c''
      \<and> mDeadline c'' = TimePoint_max
      \<and> c'' = c'\<lparr>mDeadline := TimePoint_max\<rparr>
      \<and> c' = ?c1
      \<and> trace c'' = [onError 1 ACTION_CODE_FATAL]"
    by blast
  from h3 h4 d2 w have B: "\<exists>c'. onMessageReceived example_env 0 ?u idle_codec = Some idle_codec
      \<and> what ?w = kWhatWorkDone
      \<and> handle example_env 1000 ?w idle_codec = Some c' \<and> mDeadline c' = TimePoint_max"
    by blast
  from A h5 h6 B show ?thesis by blast
qed

subsection \<open>The configure worker\<close>







lemma find_Cons:
  "findString ((k', x) # m) k
     = (if k' = k then (case x of ItemString s \<Rightarrow> Some s | _ \<Rightarrow> None) else findString m k)"
  "findInt32 ((k', x) # m) k
     = (if k' = k then (case x of ItemInt32 i \<Rightarrow> Some i | _ \<Rightarrow> None) else findInt32 m k)"
  by (simp_all add: findString_def findInt32_def)

text \<open>Claim C1, amended. For a format message with a \<open>mime\<close> string the two formats
  are stored in \<open>mFormats\<close> and passed to \<open>onComponentConfigured\<close>, the last callback of
  the worker. The kind is audio when the mime starts with \<open>audio/\<close> in any letter case,
  video otherwise. Decoder (\<open>encoder\<close> absent or 0): input mime as supplied, output
  mime \<open>\<langle>kind\<rangle>/raw\<close>, an audio output with channel-count 2 and sample-rate 44100.
  Encoder (\<open>encoder\<close> nonzero): output mime as supplied, input mime \<open>\<langle>kind\<rangle>/raw\<close>, audio
  input and output with channel-count 1 and sample-rate 44100, video output with width
  1080 and height 1920.\<close>

theorem configure_formats:
  assumes "findString msg ''mime'' = Some mime"
  shows "\<exists>inFmt outFmt.
     mFormats (configure msg c) = \<lparr>inputFormat = Some inFmt, outputFormat = Some outFmt\<rparr>
     \<and> last (trace (configure msg c)) = onComponentConfigured inFmt outFmt
     \<and> (findInt32 msg ''encoder'' = None \<or> findInt32 msg ''encoder'' = Some 0 \<longrightarrow>
          findString inFmt ''mime'' = Some mime
          \<and> findString outFmt ''mime''
              = Some (if startsWithIgnoreCase mime ''audio/'' then ''audio/raw''
                      else ''video/raw'')
          \<and> (startsWithIgnoreCase mime ''audio/'' \<longrightarrow>
                findInt32 outFmt ''channel-count'' = Some 2
                \<and> findInt32 outFmt ''sample-rate'' = Some 44100))
     \<and> ((\<exists>e. findInt32 msg ''encoder'' = Some e \<and> e \<noteq> 0) \<longrightarrow>
          findString outFmt ''mime'' = Some mime
          \<and> findString inFmt ''mime''
              = Some (if startsWithIgnoreCase mime ''audio/'' then ''audio/raw''
                      else ''video/raw'')
          \<and> (startsWithIgnoreCase mime ''audio/'' \<longrightarrow>
                findInt32 inFmt ''channel-count'' = Some 1
                \<and> findInt32 inFmt ''sample-rate'' = Some 44100
                \<and> findInt32 outFmt ''channel-count'' = Some 1
                \<and> findInt32 outFmt ''sample-rate'' = Some 44100)
          \<and> (\<not> startsWithIgnoreCase mime ''audio/'' \<longrightarrow>
                findInt32 outFmt ''width'' = Some 1080
                \<and> findInt32 outFmt ''height'' = Some 1920))"
  using assms
  by (cases "findInt32 msg ''encoder''")
    (auto simp add: configure_def configure_lambda_def Let_def OK_def raw_mime_def
      setString_def setInt32_def find_Cons)

text \<open>An audio decoder and a video encoder.\<close>

theorem configure_formats_witness:
  "findString [(''mime'', ItemString ''audio/mp4a-latm'')] ''mime'' = Some ''audio/mp4a-latm''
   \<and> findInt32 [(''mime'', ItemString ''audio/mp4a-latm'')] ''encoder'' = None
   \<and> startsWithIgnoreCase ''audio/mp4a-latm'' ''audio/''
   \<and> (\<exists>inFmt outFmt.
        mFormats (configure [(''mime'', ItemString ''audio/mp4a-latm'')] idle_codec)
          = \<lparr>inputFormat = Some inFmt, outputFormat = Some outFmt\<rparr>
        \<and> findString inFmt ''mime'' = Some ''audio/mp4a-latm''
        \<and> findString outFmt ''mime'' = Some ''audio/raw''
        \<and> findInt32 outFmt ''channel-count'' = Some 2
        \<and> findInt32 outFmt ''sample-rate'' = Some 44100)
   \<and> findString [(''mime'', ItemString ''video/avc''), (''encoder'', ItemInt32 1)] ''mime''
        = Some ''video/avc''
   \<and> findInt32 [(''mime'', ItemString ''video/avc''), (''encoder'', ItemInt32 1)] ''encoder''
        = Some 1
   \<and> \<not> startsWithIgnoreCase ''video/avc'' ''audio/''
   \<and> (\<exists>inFmt outFmt.
        mFormats (configure [(''mime'', ItemString ''video/avc''), (''encoder'', ItemInt32 1)]
            idle_codec)
          = \<lparr>inputFormat = Some inFmt, outputFormat = Some outFmt\<rparr>
        \<and> findString inFmt ''mime'' = Some ''video/raw''
        \<and> findString outFmt ''mime'' = Some ''video/avc''
        \<and> findInt32 outFmt ''width'' = Some 1080
        \<and> findInt32 outFmt ''height'' = Some 1920)"
proof -
  let ?a = "[(''mime'', ItemString ''audio/mp4a-latm'')]"
  let ?v = "[(''mime'', ItemString ''video/avc''), (''encoder'', ItemInt32 1)]"
  have a1: "findString ?a ''mime'' = Some ''audio/mp4a-latm''"
    and a2: "findInt32 ?a ''encoder'' = None"
    and v1: "findString ?v ''mime'' = Some ''video/avc''"
    and v2: "findInt32 ?v ''encoder'' = Some 1"
    by (simp_all add: findString_def findInt32_def)
  have a3: "startsWithIgnoreCase ''audio/mp4a-latm'' ''audio/''"
    by code_simp
  have v3: "\<not> startsWithIgnoreCase ''video/avc'' ''audio/''"
    by code_simp
  from configure_formats [OF a1, of idle_codec] a2 a3
  have A: "\<exists>inFmt outFmt.
        mFormats (configure ?a idle_codec)
          = \<lparr>inputFormat = Some inFmt, outputFormat = Some outFmt\<rparr>
        \<and> findString inFmt ''mime'' = Some ''audio/mp4a-latm''
        \<and> findString outFmt ''mime'' = Some ''audio/raw''
        \<and> findInt32 outFmt ''channel-count'' = Some 2
        \<and> findInt32 outFmt ''sample-rate'' = Some 44100"
    by auto
  from configure_formats [OF v1, of idle_codec] v2 v3
  have V: "\<exists>inFmt outFmt.
        mFormats (configure ?v idle_codec)
          = \<lparr>inputFormat = Some inFmt, outputFormat = Some outFmt\<rparr>
        \<and> findString inFmt ''mime'' = Some ''video/raw''
        \<and> findString outFmt ''mime'' = Some ''video/avc''
        \<and> findInt32 outFmt ''width'' = Some 1080
        \<and> findInt32 outFmt ''height'' = Some 1920"
    by auto
  from a1 a2 a3 A v1 v2 v3 V show ?thesis by blast
qed

text \<open>Claim C1 as stated fails: the mime \<open>AUDIO/mpeg\<close> does not start with \<open>audio/\<close>,
  yet a decoder configured with it gets the output mime \<open>audio/raw\<close> with channel-count 2
  and sample-rate 44100, not \<open>video/raw\<close>.\<close>

theorem configure_prefix_counterexample:
  "findString [(''mime'', ItemString ''AUDIO/mpeg'')] ''mime'' = Some ''AUDIO/mpeg''
   \<and> findInt32 [(''mime'', ItemString ''AUDIO/mpeg'')] ''encoder'' = None
   \<and> \<not> startsWith ''AUDIO/mpeg'' ''audio/''
   \<and> mFormats (configure [(''mime'', ItemString ''AUDIO/mpeg'')] idle_codec)
       = \<lparr>inputFormat = Some [(''mime'', ItemString ''AUDIO/mpeg'')],
          outputFormat = Some [(''mime'', ItemString ''audio/raw''),
            (''channel-count'', ItemInt32 2), (''sample-rate'', ItemInt32 44100)]\<rparr>
   \<and> findString [(''mime'', ItemString ''audio/raw''),
            (''channel-count'', ItemInt32 2), (''sample-rate'', ItemInt32 44100)] ''mime''
       \<noteq> Some ''video/raw''"
  by code_simp

subsection \<open>Failures of the component and of the store\<close>

text \<open>The workers that call the component report its refusal as \<open>UNKNOWN_ERROR\<close>.\<close>

lemma component_failure_reported:
  "mState c = STARTING \<Longrightarrow> state_comp c = Some k \<Longrightarrow> comp_start k \<noteq> C2_OK \<Longrightarrow>
     start c = Some (c\<lparr>trace := trace c
       @ [Component_start, onError UNKNOWN_ERROR ACTION_CODE_FATAL]\<rparr>)"
  "mState c = STOPPING \<Longrightarrow> state_comp c = Some k \<Longrightarrow> comp_stop k \<noteq> C2_OK \<Longrightarrow>
     stop c = Some (c\<lparr>mState := ALLOCATED, trace := trace c
       @ [Channel_stop, Component_stop, onError UNKNOWN_ERROR ACTION_CODE_FATAL,
          onStopCompleted]\<rparr>)"
  "mState c = FLUSHING \<Longrightarrow> state_comp c = Some k \<Longrightarrow> comp_flush_sm k = (err, ws) \<Longrightarrow>
   err \<noteq> C2_OK \<Longrightarrow>
     flush c = Some (c\<lparr>mState := FLUSHED, trace := trace c
       @ [Channel_stop, Component_flush, onError UNKNOWN_ERROR ACTION_CODE_FATAL,
          Channel_flush ws, onFlushCompleted]\<rparr>)"
  by (simp_all add: start_def stop_def flush_def emit_def Let_def)

lemma allocate_create_error:
  "createComponent env name = (err, created) \<Longrightarrow> err \<noteq> C2_OK \<Longrightarrow>
   allocate env name c = Some (c\<lparr>mState := RELEASED, mListener := True,
     trace := trace c @ [Store_createComponent name, onError err ACTION_CODE_FATAL]\<rparr>)"
  by (simp add: allocate_def emit_def Let_def)

text \<open>Claim C3. A failure of the component is to surface as
  \<open>onError(UNKNOWN_ERROR, ACTION_CODE_FATAL)\<close>. The allocate worker instead passes the
  store's own status on: when \<open>createComponent\<close> answers \<open>- 2\<close>, the callback carries
  \<open>- 2\<close>, which is not \<open>UNKNOWN_ERROR\<close>.\<close>

theorem allocate_create_failure:
  "createComponent example_env ''c2.unknown'' = (- 2, None)
   \<and> allocate example_env ''c2.unknown'' (idle_codec\<lparr>mState := ALLOCATING\<rparr>)
       = Some (idle_codec\<lparr>mListener := True,
           trace := [Store_createComponent ''c2.unknown'', onError (- 2) ACTION_CODE_FATAL]\<rparr>)
   \<and> (- 2 :: status_t) \<noteq> UNKNOWN_ERROR"
  by (simp add: allocate_def example_env_def C2_OK_def UNKNOWN_ERROR_def emit_def
      idle_codec_def)

subsection \<open>Completed work\<close>

lemma delivered_append [simp]: "delivered (xs @ ys) = delivered xs @ delivered ys"
  by (simp add: delivered_def)

lemma delivered_simps [simp]:
  "delivered [] = []"
  "delivered (e # es) = (case e of Channel_onWorkDone w \<Rightarrow> [w] | _ \<Rightarrow> []) @ delivered es"
  by (simp_all add: delivered_def)

lemma push_back_all: "foldl (\<lambda>queue item. queue @ [item]) q ws = q @ ws"
  by (induction ws arbitrary: q) simp_all

lemma onWorkDone_eq:
  "onWorkDone ws c = c\<lparr>mWorkDoneQueue := mWorkDoneQueue c @ ws,
                        looper := looper c @ [\<lparr>what = kWhatWorkDone, items = []\<rparr>]\<rparr>"
  by (simp add: onWorkDone_def post_def push_back_all)

lemma workDone_empty:
  "what msg = kWhatWorkDone \<Longrightarrow> mWorkDoneQueue c = [] \<Longrightarrow>
   onMessageReceived env now msg c = Some (c\<lparr>mDeadline := TimePoint_max\<rparr>)"
  by (simp add: onMessageReceived_def handle_def setDeadline_def)

lemma workDone_front:
  "what msg = kWhatWorkDone \<Longrightarrow> mWorkDoneQueue c = w # rest \<Longrightarrow>
   onMessageReceived env now msg c
     = Some (c\<lparr>mDeadline := TimePoint_max, mWorkDoneQueue := rest,
          looper := looper c @ (if rest \<noteq> [] then [\<lparr>what = kWhatWorkDone, items = []\<rparr>] else []),
          trace := trace c @ [Channel_onWorkDone w]\<rparr>)"
  by (simp add: onMessageReceived_def handle_def setDeadline_def post_def emit_def Let_def)

text \<open>No worker other than the work-done handler touches the queue or calls the
  channel's completion entry point.\<close>

lemma allocate_flow: "allocate env n c = Some c' \<Longrightarrow> flow c' = flow c"
  by (auto simp add: flow_def allocate_def Let_def split: prod.splits option.splits if_splits)

lemma configure_flow: "flow (configure msg c) = flow c"
  by (simp add: flow_def configure_def configure_lambda_def setSurface_def Let_def
      split: option.splits)

lemma start_flow: "start c = Some c' \<Longrightarrow> flow c' = flow c"
  by (auto simp add: flow_def start_def Let_def split: option.splits if_splits)

lemma stop_flow: "stop c = Some c' \<Longrightarrow> flow c' = flow c"
  by (auto simp add: flow_def stop_def Let_def split: option.splits if_splits)

lemma flush_flow: "flush c = Some c' \<Longrightarrow> flow c' = flow c"
  by (auto simp add: flow_def flush_def Let_def split: option.splits if_splits prod.splits)

lemma createInputSurface_flow: "flow (createInputSurface env c) = flow c"
  by (simp add: flow_def createInputSurface_def Let_def)

lemma setInputSurface_flow: "flow (setInputSurface s c) = flow c"
  by (simp add: flow_def setInputSurface_def)

lemma flow_setDeadline [simp]: "flow (setDeadline d c) = flow c"
  by (simp add: flow_def setDeadline_def)

lemma flow_looper [simp]: "flow (c\<lparr>looper := l\<rparr>) = flow c"
  by (simp add: flow_def)

lemma handle_flow: "handle env now msg c = Some c' \<Longrightarrow> flow c' = flow c"
proof (cases "what msg")
  case kWhatWorkDone
  assume "handle env now msg c = Some c'"
  with kWhatWorkDone show ?thesis
    by (auto simp add: handle_def flow_def post_def Let_def split: list.splits)
qed (auto simp add: handle_def Let_def configure_flow createInputSurface_flow
    setInputSurface_flow split: option.splits
    dest!: allocate_flow start_flow stop_flow flush_flow)

lemma onMessageReceived_flow:
  "onMessageReceived env now msg c = Some c' \<Longrightarrow> flow c' = flow c"
  by (auto simp add: onMessageReceived_def split: option.splits dest!: handle_flow)

lemma deliver_flow: "deliver env now c = Some c' \<Longrightarrow> flow c' = flow c"
  by (auto simp add: deliver_def split: list.splits dest!: onMessageReceived_flow)

lemma run_flow: "run env acts c = Some c' \<Longrightarrow> flow c' = flow c @ enqueued acts"
proof (induction env acts c rule: run.induct)
  case (1 env c)
  then show ?case by simp
next
  case (2 env workItems acts c)
  then show ?case by (simp add: onWorkDone_eq flow_def)
next
  case (3 env now acts c)
  then show ?case by (auto split: option.splits dest!: deliver_flow)
qed


lemma run_append:
  "run env (xs @ ys) c = (case run env xs c of None \<Rightarrow> None | Some c' \<Rightarrow> run env ys c')"
  by (induction env xs c rule: run.induct) (auto split: option.splits)

lemma deliver_idle:
  "looper c = [] \<Longrightarrow> deliver env now c = Some c"
  by (simp add: deliver_def)

lemma deliver_pending:
  assumes "wd_pending c" and "looper c = m # rest"
  shows "\<exists>c'. deliver env now c = Some c' \<and> wd_pending c' \<and> flow c' = flow c
           \<and> length (looper c') + length (mWorkDoneQueue c')
               < length (looper c) + length (mWorkDoneQueue c)"
proof (cases "mWorkDoneQueue c")
  case Nil
  with assms show ?thesis
    using workDone_empty [of m "c\<lparr>looper := rest\<rparr>" env now]
    by (simp add: deliver_def wd_pending_def flow_def)
next
  case (Cons w q)
  with assms show ?thesis
    using workDone_front [of m "c\<lparr>looper := rest\<rparr>" w q env now]
    by (simp add: deliver_def wd_pending_def flow_def)
qed

lemma drain:
  "wd_pending c \<Longrightarrow> length (looper c) + length (mWorkDoneQueue c) \<le> length nows \<Longrightarrow>
   \<exists>c'. run env (map Deliver nows) c = Some c' \<and> mWorkDoneQueue c' = [] \<and> looper c' = []
        \<and> delivered (trace c') = flow c"
proof (induction nows arbitrary: c)
  case Nil
  then show ?case by (simp add: flow_def)
next
  case (Cons now nows)
  show ?case
  proof (cases "looper c")
    case Nil
    with Cons.prems have "mWorkDoneQueue c = []" by (simp add: wd_pending_def)
    with Nil Cons.prems Cons.IH [of c] show ?thesis
      by (simp add: deliver_idle)
  next
    case (Cons m rest)
    from deliver_pending [OF \<open>wd_pending c\<close> Cons, of env now]
    obtain c1 where d: "deliver env now c = Some c1" and p: "wd_pending c1"
      and f: "flow c1 = flow c"
      and l: "length (looper c1) + length (mWorkDoneQueue c1)
               < length (looper c) + length (mWorkDoneQueue c)"
      by blast
    from l Cons.prems(2) have "length (looper c1) + length (mWorkDoneQueue c1) \<le> length nows"
      by simp
    from Cons.IH [OF p this] d f show ?thesis by simp
  qed
qed

lemma run_pending:
  "wd_pending c \<Longrightarrow>
   \<exists>c'. run env acts c = Some c' \<and> wd_pending c'
        \<and> length (looper c') + length (mWorkDoneQueue c')
            \<le> length (looper c) + length (mWorkDoneQueue c) + length acts
                + length (enqueued acts)"
proof (induction acts arbitrary: c)
  case Nil
  then show ?case by simp
next
  case (Cons a acts)
  show ?case
  proof (cases a)
    case (Enqueue ws)
    from Cons.prems have p: "wd_pending (onWorkDone ws c)"
      by (simp add: onWorkDone_eq wd_pending_def)
    from Cons.IH [OF p] Enqueue show ?thesis
      by (auto simp add: onWorkDone_eq)
  next
    case (Deliver now)
    show ?thesis
    proof (cases "looper c")
      case Nil
      with Cons.IH [OF Cons.prems] Deliver show ?thesis
        by (auto simp add: deliver_idle)
    next
      case (Cons m rest)
      from deliver_pending [OF \<open>wd_pending c\<close> Cons, of env now]
      obtain c1 where d: "deliver env now c = Some c1" and p: "wd_pending c1"
        and l: "length (looper c1) + length (mWorkDoneQueue c1)
                 < length (looper c) + length (mWorkDoneQueue c)"
        by blast
      from Cons.IH [OF p] obtain c' where "run env acts c1 = Some c'" "wd_pending c'"
        "length (looper c') + length (mWorkDoneQueue c')
            \<le> length (looper c1) + length (mWorkDoneQueue c1) + length acts
                + length (enqueued acts)"
        by blast
      with d l Deliver show ?thesis by auto
    qed
  qed
qed

lemma run_then_drain:
  assumes "wd_pending c"
    and "length (looper c) + length (mWorkDoneQueue c) + length acts + length (enqueued acts)
          \<le> length nows"
  shows "\<exists>c'. run env (acts @ map Deliver nows) c = Some c' \<and> mWorkDoneQueue c' = []
           \<and> delivered (trace c') = delivered (trace c) @ mWorkDoneQueue c @ enqueued acts"
proof -
  from run_pending [OF assms(1), of env acts]
  obtain c1 where r: "run env acts c = Some c1" and p: "wd_pending c1"
    and l: "length (looper c1) + length (mWorkDoneQueue c1)
            \<le> length (looper c) + length (mWorkDoneQueue c) + length acts
                + length (enqueued acts)"
    by blast
  from l assms(2) have "length (looper c1) + length (mWorkDoneQueue c1) \<le> length nows"
    by simp
  from drain [OF p this, of env]
  obtain c' where "run env (map Deliver nows) c1 = Some c'" "mWorkDoneQueue c' = []"
    "delivered (trace c') = flow c1"
    by blast
  with r run_flow [OF r] show ?thesis
    by (simp add: run_append flow_def)
qed

text \<open>Claim C7. A work-done message that finds the queue empty changes nothing (the
  deadline is put back to "never", as on every exit); otherwise it removes the front item,
  hands exactly that item to the buffer channel and posts another work-done message
  if and only if items remain. Hence along every schedule of listener notifications and
  message deliveries the items handed to the channel followed by the items still queued
  are the items enqueued, in their order; and once deliveries enough have followed the
  notifications, every item enqueued has reached the channel exactly once, in that
  order.\<close>

theorem work_done_fifo:
  "(what msg = kWhatWorkDone \<and> mWorkDoneQueue c = [] \<longrightarrow>
      onMessageReceived env now msg c = Some (c\<lparr>mDeadline := TimePoint_max\<rparr>))
   \<and> (what msg = kWhatWorkDone \<and> mWorkDoneQueue c = w # rest \<longrightarrow>
      onMessageReceived env now msg c
        = Some (c\<lparr>mDeadline := TimePoint_max, mWorkDoneQueue := rest,
             looper := looper c
               @ (if rest \<noteq> [] then [\<lparr>what = kWhatWorkDone, items = []\<rparr>] else []),
             trace := trace c @ [Channel_onWorkDone w]\<rparr>))
   \<and> (run env acts c = Some c' \<longrightarrow>
      delivered (trace c') @ mWorkDoneQueue c'
        = delivered (trace c) @ mWorkDoneQueue c @ enqueued acts)
   \<and> (wd_pending c
       \<and> length (looper c) + length (mWorkDoneQueue c) + length acts + length (enqueued acts)
           \<le> length nows \<longrightarrow>
      (\<exists>c''. run env (acts @ map Deliver nows) c = Some c'' \<and> mWorkDoneQueue c'' = []
         \<and> delivered (trace c'')
             = delivered (trace c) @ mWorkDoneQueue c @ enqueued acts))"
  using workDone_empty [of msg c env now] workDone_front [of msg c w rest env now]
    run_flow [of env acts c c'] run_then_drain [of c acts nows env]
  by (simp add: flow_def)


text \<open>Two notifications with a delivery in between, then six deliveries.\<close>

theorem work_done_fifo_witness:
  "what \<lparr>what = kWhatWorkDone, items = []\<rparr> = kWhatWorkDone
   \<and> mWorkDoneQueue idle_codec = []
   \<and> onMessageReceived example_env 5 \<lparr>what = kWhatWorkDone, items = []\<rparr> idle_codec
       = Some idle_codec
   \<and> mWorkDoneQueue (idle_codec\<lparr>mWorkDoneQueue := [8, 9]\<rparr>) = [8, 9]
   \<and> onMessageReceived example_env 5 \<lparr>what = kWhatWorkDone, items = []\<rparr>
         (idle_codec\<lparr>mWorkDoneQueue := [8, 9]\<rparr>)
       = Some (idle_codec\<lparr>mWorkDoneQueue := [9],
            looper := [\<lparr>what = kWhatWorkDone, items = []\<rparr>],
            trace := [Channel_onWorkDone 8]\<rparr>)
   \<and> (\<exists>c'. run example_env [Enqueue [1, 2], Deliver 10, Enqueue [3]] idle_codec = Some c'
         \<and> delivered (trace c') @ mWorkDoneQueue c' = [1, 2, 3])
   \<and> wd_pending idle_codec
   \<and> (\<exists>c''. run example_env
           ([Enqueue [1, 2], Deliver 10, Enqueue [3]] @ map Deliver [20, 30, 40, 50, 60, 70])
           idle_codec = Some c''
         \<and> mWorkDoneQueue c'' = [] \<and> delivered (trace c'') = [1, 2, 3])"
proof -
  let ?w = "\<lparr>what = kWhatWorkDone, items = []\<rparr>"
  let ?acts = "[Enqueue [1, 2], Deliver 10, Enqueue [3]]"
  let ?nows = "[20, 30, 40, 50, 60, 70] :: TimePoint list"
  have p: "wd_pending idle_codec"
    by (simp add: wd_pending_def)
  have i: "idle_codec\<lparr>mDeadline := TimePoint_max\<rparr> = idle_codec"
    by (simp add: idle_codec_def)
  from run_pending [OF p, of example_env ?acts]
  obtain c' where r: "run example_env ?acts idle_codec = Some c'"
    by blast
  note t1 = work_done_fifo [where msg = ?w and c = idle_codec and env = example_env
      and now = 5 and acts = ?acts and c' = c' and nows = ?nows]
  note t2 = work_done_fifo [where msg = ?w and c = "idle_codec\<lparr>mWorkDoneQueue := [8, 9]\<rparr>"
      and env = example_env and now = 5 and w = 8 and rest = "[9]"]
  from t1 i have A: "onMessageReceived example_env 5 ?w idle_codec = Some idle_codec"
    by simp
  from t2 have B: "onMessageReceived example_env 5 ?w (idle_codec\<lparr>mWorkDoneQueue := [8, 9]\<rparr>)
       = Some (idle_codec\<lparr>mWorkDoneQueue := [9], looper := [?w],
            trace := [Channel_onWorkDone 8]\<rparr>)"
    by (simp add: idle_codec_def)
  from t1 r have C: "delivered (trace c') @ mWorkDoneQueue c' = [1, 2, 3]"
    by simp
  from t1 p have D: "\<exists>c''. run example_env (?acts @ map Deliver ?nows) idle_codec = Some c''
         \<and> mWorkDoneQueue c'' = [] \<and> delivered (trace c'') = [1, 2, 3]"
    by simp
  from A B r C p D show ?thesis
    by auto
qed

end
